theory Spec2Isabelle
  imports Main "HOL-Library.Word"
begin

section \<open>service-identity: credential lifecycle and optimistic-concurrency engine\<close>

text \<open>
  A shallow embedding of the Go sources of service-identity:
  \<^item> the value objects \<open>Email\<close> and \<open>Phone\<close> and the entities \<open>User\<close> and
    \<open>RefreshToken\<close> of package \<open>identity\<close>;
  \<^item> the GORM repositories of package \<open>repository\<close>, as functions on tables (lists of rows);
  \<^item> the use cases of \<open>AuthService\<close> in package \<open>application\<close>, as functions from the
    database to a result and the database afterwards.
  Everything a Go method reads besides its arguments (the clock, \<open>uuid.New\<close>, bcrypt, the JWT
  manager, the errors the database driver reports) is an explicit argument.
\<close>

subsection \<open>Basic types\<close>

text \<open>
  \<open>uuid.UUID\<close> is sixteen bytes. \<open>time.Time\<close> is an instant, counted here in nanoseconds from
  Go's zero \<open>Time\<close>, so that the zero value of the type is \<open>0\<close>. \<open>auth.UserRole\<close> is a string
  type. \<open>int64\<close> is a 64-bit word: \<open>version++\<close> wraps.
\<close>

type_synonym uuid = "128 word"
type_synonym time = int
type_synonym UserRole = string
type_synonym int64 = "64 word"

subsection \<open>RefreshToken entity\<close>

record RefreshToken =
  t_id :: uuid
  t_userID :: uuid
  t_token :: string
  t_expiresAt :: time
  t_revoked :: bool
  t_createdAt :: time

text \<open>\<open>NewRefreshToken\<close>: \<open>new_id\<close> is the value of \<open>uuid.New()\<close>, \<open>now\<close> of \<open>time.Now().UTC()\<close>.\<close>

definition NewRefreshToken :: "uuid \<Rightarrow> time \<Rightarrow> uuid \<Rightarrow> string \<Rightarrow> time \<Rightarrow> RefreshToken" where
  "NewRefreshToken new_id now userID token expiresAt =
     \<lparr>t_id = new_id, t_userID = userID, t_token = token, t_expiresAt = expiresAt,
      t_revoked = False, t_createdAt = now\<rparr>"

definition ReconstructRefreshToken ::
  "uuid \<Rightarrow> uuid \<Rightarrow> string \<Rightarrow> time \<Rightarrow> bool \<Rightarrow> time \<Rightarrow> RefreshToken" where
  "ReconstructRefreshToken i userID token expiresAt revoked createdAt =
     \<lparr>t_id = i, t_userID = userID, t_token = token, t_expiresAt = expiresAt,
      t_revoked = revoked, t_createdAt = createdAt\<rparr>"

definition Revoke :: "RefreshToken \<Rightarrow> RefreshToken" where
  "Revoke t = t\<lparr>t_revoked := True\<rparr>"

text \<open>\<open>IsExpired\<close> is \<open>time.Now().UTC().After(t.expiresAt)\<close>: strictly after.\<close>

definition IsExpired :: "time \<Rightarrow> RefreshToken \<Rightarrow> bool" where
  "IsExpired now t = (t_expiresAt t < now)"

definition IsValid :: "time \<Rightarrow> RefreshToken \<Rightarrow> bool" where
  "IsValid now t = (\<not> t_revoked t \<and> \<not> IsExpired now t)"

subsection \<open>Strings: regular expressions, TrimSpace, ToLower\<close>

text \<open>
  Both regular expressions of the package are anchored sequences of repeated character
  classes, so a regular expression is a list of items \<open>Rep P lo hi\<close>: between \<open>lo\<close> and
  \<open>hi\<close> characters (no upper bound when \<open>hi\<close> is \<open>None\<close>) of the class \<open>P\<close>.
  \<open>MatchString\<close> tries every repetition count, as the backtracking of \<open>^ ... $\<close> does.
\<close>

datatype item = Rep "char \<Rightarrow> bool" nat "nat option"

fun MatchString :: "item list \<Rightarrow> string \<Rightarrow> bool" where
  "MatchString [] s = (s = [])"
| "MatchString (Rep P lo hi # its) s =
     list_ex (\<lambda>k. list_all P (take k s) \<and> MatchString its (drop k s))
       [lo ..< Suc (case hi of None \<Rightarrow> length s | Some h \<Rightarrow> min h (length s))]"

definition digit :: "char \<Rightarrow> bool" where
  "digit c = (c \<in> set ''0123456789'')"

definition letter :: "char \<Rightarrow> bool" where
  "letter c = (c \<in> set ''abcdefghijklmnopqrstuvwxyzABCDEFGHIJKLMNOPQRSTUVWXYZ'')"

text \<open>\<^verbatim>\<open>^\+?[0-9]{7,15}$\<close>\<close>

definition phoneRegexp :: "item list" where
  "phoneRegexp = [Rep (\<lambda>c. c = CHR ''+'') 0 (Some 1), Rep digit 7 (Some 15)]"

text \<open>\<^verbatim>\<open>^[a-zA-Z0-9._%+\-]+@[a-zA-Z0-9.\-]+\.[a-zA-Z]{2,}$\<close>\<close>

definition emailRegexp :: "item list" where
  "emailRegexp =
     [Rep (\<lambda>c. letter c \<or> digit c \<or> c \<in> set ''._%+-'') 1 None,
      Rep (\<lambda>c. c = CHR ''@'') 1 (Some 1),
      Rep (\<lambda>c. letter c \<or> digit c \<or> c \<in> set ''.-'') 1 None,
      Rep (\<lambda>c. c = CHR ''.'') 1 (Some 1),
      Rep letter 2 None]"

text \<open>
  \<open>strings.TrimSpace\<close> removes the leading and trailing white space of Unicode. A Go string
  is a sequence of bytes in UTF-8, so the white space code points are listed by their
  encodings: the six of ASCII, U+0085, U+00A0, U+1680, U+2000 to U+200A, U+2028, U+2029,
  U+202F, U+205F and U+3000. \<open>leading_space\<close> is the length of the white space the string
  starts with (0 when it starts with none); the trimming loop drops it until none is left,
  and \<open>length s\<close> rounds always suffice, since each round drops at least one byte.
\<close>

definition unicode_space :: "string list" where
  "unicode_space =
     [[CHR 0x09], [CHR 0x0A], [CHR 0x0B], [CHR 0x0C], [CHR 0x0D], [CHR 0x20],
      [CHR 0xC2, CHR 0x85], [CHR 0xC2, CHR 0xA0],
      [CHR 0xE1, CHR 0x9A, CHR 0x80],
      [CHR 0xE2, CHR 0x80, CHR 0x80], [CHR 0xE2, CHR 0x80, CHR 0x81],
      [CHR 0xE2, CHR 0x80, CHR 0x82], [CHR 0xE2, CHR 0x80, CHR 0x83],
      [CHR 0xE2, CHR 0x80, CHR 0x84], [CHR 0xE2, CHR 0x80, CHR 0x85],
      [CHR 0xE2, CHR 0x80, CHR 0x86], [CHR 0xE2, CHR 0x80, CHR 0x87],
      [CHR 0xE2, CHR 0x80, CHR 0x88], [CHR 0xE2, CHR 0x80, CHR 0x89],
      [CHR 0xE2, CHR 0x80, CHR 0x8A],
      [CHR 0xE2, CHR 0x80, CHR 0xA8], [CHR 0xE2, CHR 0x80, CHR 0xA9],
      [CHR 0xE2, CHR 0x80, CHR 0xAF], [CHR 0xE2, CHR 0x81, CHR 0x9F],
      [CHR 0xE3, CHR 0x80, CHR 0x80]]"

definition leading_space :: "string list \<Rightarrow> string \<Rightarrow> nat" where
  "leading_space encs s =
     (case find (\<lambda>w. take (length w) s = w) encs of None \<Rightarrow> 0 | Some w \<Rightarrow> length w)"

fun trim_n :: "nat \<Rightarrow> string list \<Rightarrow> string \<Rightarrow> string" where
  "trim_n 0 encs s = s"
| "trim_n (Suc n) encs s =
     (if leading_space encs s = 0 then s else trim_n n encs (drop (leading_space encs s) s))"

definition TrimLeft :: "string \<Rightarrow> string" where
  "TrimLeft s = trim_n (length s) unicode_space s"

definition TrimRight :: "string \<Rightarrow> string" where
  "TrimRight s = rev (trim_n (length s) (map rev unicode_space) (rev s))"

definition TrimSpace :: "string \<Rightarrow> string" where
  "TrimSpace s = TrimRight (TrimLeft s)"

text \<open>
  \<open>strings.ToLower\<close> on a string of ASCII bytes, the only strings it is applied to:
  \<open>NewEmail\<close> lower-cases what \<open>emailRegexp\<close> has accepted.
\<close>

definition ToLower :: "string \<Rightarrow> string" where
  "ToLower s = map (\<lambda>c. if c \<in> set ''ABCDEFGHIJKLMNOPQRSTUVWXYZ''
                          then char_of (of_char c + (32::nat)) else c) s"

subsection \<open>Value objects\<close>

text \<open>
  An error made by \<open>fmt.Errorf\<close> from a format and a string is given by its message; the
  constructors of the value objects and of \<open>User\<close> return the message on the left.
\<close>

datatype Email = Email string

fun Email_String :: "Email \<Rightarrow> string" where
  "Email_String (Email v) = v"

definition NewEmail :: "string \<Rightarrow> string + Email" where
  "NewEmail raw =
     (let trimmed = TrimSpace raw in
      if trimmed = [] then Inl ''email is required''
      else if \<not> MatchString emailRegexp trimmed then Inl (''invalid email format: '' @ trimmed)
      else Inr (Email (ToLower trimmed)))"

datatype Phone = Phone string

fun Phone_String :: "Phone \<Rightarrow> string" where
  "Phone_String (Phone v) = v"

definition NewPhone :: "string \<Rightarrow> string + Phone" where
  "NewPhone raw =
     (let trimmed = TrimSpace raw in
      if trimmed = [] then Inr (Phone [])
      else if \<not> MatchString phoneRegexp trimmed then Inl (''invalid phone format: '' @ trimmed)
      else Inr (Phone trimmed))"

text \<open>
  The format a phone number has when it is not empty is the one \<open>NewPhone\<close> checks:
  \<open>phoneRegexp\<close>.
\<close>

definition phone_ok :: "Phone \<Rightarrow> bool" where
  "phone_ok p = (Phone_String p = [] \<or> MatchString phoneRegexp (Phone_String p))"

subsection \<open>User aggregate\<close>

record User =
  u_id :: uuid
  u_email :: Email
  u_phone :: Phone
  u_passwordHash :: string
  u_fullName :: string
  u_role :: UserRole
  u_isVerified :: bool
  u_avatarURL :: string
  u_version :: int64
  u_createdAt :: time
  u_updatedAt :: time

text \<open>\<open>NewUser\<close>: \<open>new_id\<close> is the value of \<open>uuid.New()\<close>, \<open>now\<close> of \<open>time.Now().UTC()\<close>.\<close>

definition NewUser ::
  "uuid \<Rightarrow> time \<Rightarrow> string \<Rightarrow> string \<Rightarrow> string \<Rightarrow> string \<Rightarrow> UserRole \<Rightarrow> string + User" where
  "NewUser new_id now email phone fullName passwordHash role =
     (case NewEmail email of
        Inl err \<Rightarrow> Inl err
      | Inr emailVO \<Rightarrow>
     (case NewPhone phone of
        Inl err \<Rightarrow> Inl err
      | Inr phoneVO \<Rightarrow>
          if fullName = [] then Inl ''full name is required''
          else if passwordHash = [] then Inl ''password hash is required''
          else Inr \<lparr>u_id = new_id, u_email = emailVO, u_phone = phoneVO,
                    u_passwordHash = passwordHash, u_fullName = fullName, u_role = role,
                    u_isVerified = False, u_avatarURL = [], u_version = 1,
                    u_createdAt = now, u_updatedAt = now\<rparr>))"

definition ReconstructUser ::
  "uuid \<Rightarrow> string \<Rightarrow> string \<Rightarrow> string \<Rightarrow> string \<Rightarrow> UserRole \<Rightarrow> bool \<Rightarrow> string \<Rightarrow> int64
     \<Rightarrow> time \<Rightarrow> time \<Rightarrow> User" where
  "ReconstructUser i email phone passwordHash fullName role isVerified avatarURL version
     createdAt updatedAt =
     \<lparr>u_id = i, u_email = Email email, u_phone = Phone phone, u_passwordHash = passwordHash,
      u_fullName = fullName, u_role = role, u_isVerified = isVerified,
      u_avatarURL = avatarURL, u_version = version, u_createdAt = createdAt,
      u_updatedAt = updatedAt\<rparr>"

definition Verify :: "time \<Rightarrow> User \<Rightarrow> User" where
  "Verify now u = u\<lparr>u_isVerified := True, u_updatedAt := now\<rparr>"

definition User_UpdateProfile :: "time \<Rightarrow> string \<Rightarrow> string \<Rightarrow> string \<Rightarrow> User \<Rightarrow> User" where
  "User_UpdateProfile now fullName phone avatarURL u =
     (let u1 = (if fullName \<noteq> [] then u\<lparr>u_fullName := fullName\<rparr> else u);
          u2 = (if phone \<noteq> [] then u1\<lparr>u_phone := Phone phone\<rparr> else u1);
          u3 = (if avatarURL \<noteq> [] then u2\<lparr>u_avatarURL := avatarURL\<rparr> else u2)
      in u3\<lparr>u_updatedAt := now\<rparr>)"

definition ChangePassword :: "time \<Rightarrow> string \<Rightarrow> User \<Rightarrow> User" where
  "ChangePassword now newHash u = u\<lparr>u_passwordHash := newHash, u_updatedAt := now\<rparr>"

definition Deactivate :: "time \<Rightarrow> User \<Rightarrow> User" where
  "Deactivate now u = u\<lparr>u_isVerified := False, u_updatedAt := now\<rparr>"

definition IncrementVersion :: "time \<Rightarrow> User \<Rightarrow> User" where
  "IncrementVersion now u = u\<lparr>u_version := u_version u + 1, u_updatedAt := now\<rparr>"

subsection \<open>Errors\<close>

text \<open>
  The error values of the service. The first five are the typed errors the constructors of
  \<open>lib-common/domain\<close> build (\<open>NewAlreadyExistsError(entity, field, value)\<close>,
  \<open>NewValidationError(msg)\<close>, \<open>NewUnauthorizedError(msg)\<close>, \<open>NewNotFoundError(entity, id)\<close>,
  \<open>NewConflictError(msg)\<close>); \<open>ErrNotFound\<close> is the sentinel \<open>domain.ErrNotFound\<close> the
  repositories return. \<open>UniqueViolation\<close> is the error of the database for an insert that
  breaks the named unique index, \<open>LibError\<close> any other error of a library (the driver,
  bcrypt, the JWT manager), named by its message. \<open>Errorf p e\<close> is
  \<open>fmt.Errorf("p: %w", e)\<close>: an error that wraps \<open>e\<close> and is none of the typed ones.
\<close>

datatype error =
    AlreadyExistsError string string string
  | ValidationError string
  | UnauthorizedError string
  | NotFoundError string uuid
  | ConflictError string
  | ErrNotFound
  | UniqueViolation string
  | LibError string
  | Errorf string error

subsection \<open>Tables and rows\<close>

record UserModel =
  um_ID :: uuid
  um_Email :: string
  um_Phone :: string
  um_PasswordHash :: string
  um_FullName :: string
  um_Role :: UserRole
  um_IsVerified :: bool
  um_AvatarURL :: string
  um_Version :: int64
  um_CreatedAt :: time
  um_UpdatedAt :: time

definition toDomain :: "UserModel \<Rightarrow> User" where
  "toDomain m =
     ReconstructUser (um_ID m) (um_Email m) (um_Phone m) (um_PasswordHash m) (um_FullName m)
       (um_Role m) (um_IsVerified m) (um_AvatarURL m) (um_Version m) (um_CreatedAt m)
       (um_UpdatedAt m)"

definition fromDomainUser :: "User \<Rightarrow> UserModel" where
  "fromDomainUser u =
     \<lparr>um_ID = u_id u, um_Email = Email_String (u_email u), um_Phone = Phone_String (u_phone u),
      um_PasswordHash = u_passwordHash u, um_FullName = u_fullName u, um_Role = u_role u,
      um_IsVerified = u_isVerified u, um_AvatarURL = u_avatarURL u, um_Version = u_version u,
      um_CreatedAt = u_createdAt u, um_UpdatedAt = u_updatedAt u\<rparr>"

record RefreshTokenModel =
  tm_ID :: uuid
  tm_UserID :: uuid
  tm_Token :: string
  tm_ExpiresAt :: time
  tm_Revoked :: bool
  tm_CreatedAt :: time

definition toDomainToken :: "RefreshTokenModel \<Rightarrow> RefreshToken" where
  "toDomainToken m =
     ReconstructRefreshToken (tm_ID m) (tm_UserID m) (tm_Token m) (tm_ExpiresAt m)
       (tm_Revoked m) (tm_CreatedAt m)"

definition fromDomainRefreshToken :: "RefreshToken \<Rightarrow> RefreshTokenModel" where
  "fromDomainRefreshToken t =
     \<lparr>tm_ID = t_id t, tm_UserID = t_userID t, tm_Token = t_token t,
      tm_ExpiresAt = t_expiresAt t, tm_Revoked = t_revoked t, tm_CreatedAt = t_createdAt t\<rparr>"

text \<open>
  The database: the tables \<open>users\<close> (primary key \<open>id\<close>, unique index on \<open>email\<close>) and
  \<open>refresh_tokens\<close> (primary key \<open>id\<close>, unique index on \<open>token\<close>), each a list of rows.
\<close>

record DB =
  users :: "UserModel list"
  refresh_tokens :: "RefreshTokenModel list"

subsection \<open>GormUserRepository\<close>

text \<open>
  Every repository method sends one statement. Its first argument \<open>fault\<close> is what the driver
  reports for that statement when the database does not execute it (a lost connection, a
  cancelled context, a constraint that is not modelled here): \<open>None\<close> when it is executed.
  \<open>First\<close> returns the row that matches; under the key constraints at most one does.
\<close>

definition UserRepo_FindByID :: "string option \<Rightarrow> uuid \<Rightarrow> UserModel list \<Rightarrow> error + User" where
  "UserRepo_FindByID fault i rows =
     (case fault of
        Some e \<Rightarrow> Inl (LibError e)
      | None \<Rightarrow>
          (case find (\<lambda>r. um_ID r = i) rows of
             None \<Rightarrow> Inl ErrNotFound
           | Some model \<Rightarrow> Inr (toDomain model)))"

text \<open>\<open>WHERE email = ?\<close> compares the strings as they are: no case folding.\<close>

definition UserRepo_FindByEmail :: "string option \<Rightarrow> string \<Rightarrow> UserModel list \<Rightarrow> error + User" where
  "UserRepo_FindByEmail fault email rows =
     (case fault of
        Some e \<Rightarrow> Inl (LibError e)
      | None \<Rightarrow>
          (case find (\<lambda>r. um_Email r = email) rows of
             None \<Rightarrow> Inl ErrNotFound
           | Some model \<Rightarrow> Inr (toDomain model)))"

text \<open>
  \<open>Save\<close> is \<open>Create(model)\<close> and returns the error of the insert as it is. The insert is
  refused when the primary key or the e-mail address is already in the table.
\<close>

definition UserRepo_Save ::
  "string option \<Rightarrow> User \<Rightarrow> UserModel list \<Rightarrow> error option \<times> UserModel list" where
  "UserRepo_Save fault user rows =
     (let model = fromDomainUser user in
      case fault of
        Some e \<Rightarrow> (Some (LibError e), rows)
      | None \<Rightarrow>
          if list_ex (\<lambda>r. um_ID r = um_ID model) rows
          then (Some (UniqueViolation ''users_pkey''), rows)
          else if list_ex (\<lambda>r. um_Email r = um_Email model) rows
          then (Some (UniqueViolation ''idx_users_email''), rows)
          else (None, rows @ [model]))"

text \<open>
  \<open>Updates(model)\<close> with a struct: GORM assigns the columns whose field in \<open>model\<close> is not
  the zero value of its type (\<open>""\<close>, \<open>false\<close>, \<open>0\<close>, the zero \<open>Time\<close>) and leaves the other
  columns of the row as they are; \<open>updated_at\<close> is always assigned the time of the
  statement. \<open>Updates now model row\<close> is the row after the assignment.
\<close>

definition Updates :: "time \<Rightarrow> UserModel \<Rightarrow> UserModel \<Rightarrow> UserModel" where
  "Updates now model row =
     \<lparr>um_ID = (if um_ID model = 0 then um_ID row else um_ID model),
      um_Email = (if um_Email model = [] then um_Email row else um_Email model),
      um_Phone = (if um_Phone model = [] then um_Phone row else um_Phone model),
      um_PasswordHash =
        (if um_PasswordHash model = [] then um_PasswordHash row else um_PasswordHash model),
      um_FullName = (if um_FullName model = [] then um_FullName row else um_FullName model),
      um_Role = (if um_Role model = [] then um_Role row else um_Role model),
      um_IsVerified = (if um_IsVerified model = False then um_IsVerified row else um_IsVerified model),
      um_AvatarURL = (if um_AvatarURL model = [] then um_AvatarURL row else um_AvatarURL model),
      um_Version = (if um_Version model = 0 then um_Version row else um_Version model),
      um_CreatedAt = (if um_CreatedAt model = 0 then um_CreatedAt row else um_CreatedAt model),
      um_UpdatedAt = now\<rparr>"

text \<open>
  \<open>Update\<close>: one statement,
  \<^verbatim>\<open>UPDATE users SET ... WHERE id = model.ID AND version = model.Version - 1\<close>,
  then the test of \<open>RowsAffected\<close>. \<open>hit\<close> is the \<open>WHERE\<close> clause.
\<close>

definition hit :: "UserModel \<Rightarrow> UserModel \<Rightarrow> bool" where
  "hit model r = (um_ID r = um_ID model \<and> um_Version r = um_Version model - 1)"

definition RowsAffected :: "UserModel \<Rightarrow> UserModel list \<Rightarrow> nat" where
  "RowsAffected model rows = length (filter (hit model) rows)"

definition UserRepo_Update ::
  "string option \<Rightarrow> time \<Rightarrow> User \<Rightarrow> UserModel list \<Rightarrow> error option \<times> UserModel list" where
  "UserRepo_Update fault now user rows =
     (let model = fromDomainUser user in
      case fault of
        Some e \<Rightarrow> (Some (LibError e), rows)
      | None \<Rightarrow>
          let rows' = map (\<lambda>r. if hit model r then Updates now model r else r) rows in
          if RowsAffected model rows = 0
          then (Some (ConflictError ''user was modified by another transaction''), rows')
          else (None, rows'))"

subsection \<open>GormTokenRepository\<close>

definition TokenRepo_Save ::
  "string option \<Rightarrow> RefreshToken \<Rightarrow> RefreshTokenModel list
     \<Rightarrow> error option \<times> RefreshTokenModel list" where
  "TokenRepo_Save fault token rows =
     (let model = fromDomainRefreshToken token in
      case fault of
        Some e \<Rightarrow> (Some (LibError e), rows)
      | None \<Rightarrow>
          if list_ex (\<lambda>r. tm_ID r = tm_ID model) rows
          then (Some (UniqueViolation ''refresh_tokens_pkey''), rows)
          else if list_ex (\<lambda>r. tm_Token r = tm_Token model) rows
          then (Some (UniqueViolation ''idx_refresh_tokens_token''), rows)
          else (None, rows @ [model]))"

definition TokenRepo_FindByToken ::
  "string option \<Rightarrow> string \<Rightarrow> RefreshTokenModel list \<Rightarrow> error + RefreshToken" where
  "TokenRepo_FindByToken fault token rows =
     (case fault of
        Some e \<Rightarrow> Inl (LibError e)
      | None \<Rightarrow>
          (case find (\<lambda>r. tm_Token r = token) rows of
             None \<Rightarrow> Inl ErrNotFound
           | Some model \<Rightarrow> Inr (toDomainToken model)))"

text \<open>\<^verbatim>\<open>UPDATE refresh_tokens SET revoked = true WHERE user_id = ? AND revoked = false\<close>\<close>

definition TokenRepo_RevokeAllForUser ::
  "string option \<Rightarrow> uuid \<Rightarrow> RefreshTokenModel list \<Rightarrow> error option \<times> RefreshTokenModel list" where
  "TokenRepo_RevokeAllForUser fault userID rows =
     (case fault of
        Some e \<Rightarrow> (Some (LibError e), rows)
      | None \<Rightarrow>
          (None, map (\<lambda>r. if tm_UserID r = userID \<and> tm_Revoked r = False
                          then r\<lparr>tm_Revoked := True\<rparr> else r) rows))"

subsection \<open>AuthService\<close>

text \<open>
  What a use case reads during one request, besides its arguments and the database:
  \<^item> \<open>Now\<close>, the reading of the clock (\<open>time.Now()\<close>; the readings within one request are
    taken to be the same instant);
  \<^item> \<open>new_user_id\<close> and \<open>new_token_id\<close>, the values of \<open>uuid.New()\<close> in \<open>NewUser\<close> and in
    \<open>NewRefreshToken\<close>;
  \<^item> bcrypt: \<open>GenerateFromPassword\<close> (the hash, or an error) and \<open>CompareHashAndPassword\<close>
    (\<open>None\<close> when the password matches the hash);
  \<^item> the JWT manager of \<open>lib-common/auth\<close>: \<open>GenerateAccessToken\<close>, \<open>GenerateRefreshToken\<close>
    and \<open>ValidateToken\<close>, which returns the claims of a token whose signature and expiry are
    good; the service reads \<open>UserID\<close> of the claims;
  \<^item> \<open>driver\<close>, what the database driver reports for each statement of the request
    (\<open>None\<close>: the statement is executed). A use case sends each kind of statement at most once.
\<close>

record Claims =
  UserID :: uuid

datatype stmt =
    UserFindByID | UserFindByEmail | UserSave | UserUpdate
  | TokenSave | TokenFindByToken | TokenRevokeAllForUser

record Env =
  Now :: time
  new_user_id :: uuid
  new_token_id :: uuid
  GenerateFromPassword :: "string \<Rightarrow> error + string"
  CompareHashAndPassword :: "string \<Rightarrow> string \<Rightarrow> error option"
  GenerateAccessToken :: "uuid \<Rightarrow> string \<Rightarrow> UserRole \<Rightarrow> error + string"
  GenerateRefreshToken :: "uuid \<Rightarrow> error + string"
  ValidateToken :: "string \<Rightarrow> error + Claims"
  driver :: "stmt \<Rightarrow> string option"

record RegisterRequest =
  req_Email :: string
  req_Phone :: string
  req_FullName :: string
  req_Password :: string
  req_Role :: string

record LoginRequest =
  login_Email :: string
  login_Password :: string

record UpdateProfileRequest =
  upd_FullName :: string
  upd_Phone :: string
  upd_AvatarURL :: string

record UserDTO =
  dto_ID :: uuid
  dto_Email :: string
  dto_Phone :: string
  dto_FullName :: string
  dto_Role :: string
  dto_IsVerified :: bool
  dto_AvatarURL :: string
  dto_CreatedAt :: time

record AuthResponse =
  resp_AccessToken :: string
  resp_RefreshToken :: string
  resp_User :: UserDTO

definition toUserDTO :: "User \<Rightarrow> UserDTO" where
  "toUserDTO user =
     \<lparr>dto_ID = u_id user, dto_Email = Email_String (u_email user),
      dto_Phone = Phone_String (u_phone user), dto_FullName = u_fullName user,
      dto_Role = u_role user, dto_IsVerified = u_isVerified user,
      dto_AvatarURL = u_avatarURL user, dto_CreatedAt = u_createdAt user\<rparr>"

text \<open>\<open>7*24*time.Hour\<close>, in nanoseconds.\<close>

definition refresh_window :: int where
  "refresh_window = 7 * 24 * 3600 * 1000000000"

text \<open>
  The three steps that end \<open>Register\<close>, \<open>Login\<close> and \<open>RefreshToken\<close> alike: generate the
  access token, generate the refresh token, store the refresh token with expiry
  \<open>now + 7*24h\<close>, and answer with the pair and the view of the user.
\<close>

definition issue_tokens :: "Env \<Rightarrow> User \<Rightarrow> DB \<Rightarrow> (error + AuthResponse) \<times> DB" where
  "issue_tokens env user db =
     (case GenerateAccessToken env (u_id user) (Email_String (u_email user)) (u_role user) of
        Inl err \<Rightarrow> (Inl (Errorf ''failed to generate access token'' err), db)
      | Inr accessToken \<Rightarrow>
     (case GenerateRefreshToken env (u_id user) of
        Inl err \<Rightarrow> (Inl (Errorf ''failed to generate refresh token'' err), db)
      | Inr refreshTokenStr \<Rightarrow>
     (case TokenRepo_Save (driver env TokenSave)
             (NewRefreshToken (new_token_id env) (Now env) (u_id user) refreshTokenStr
                (Now env + refresh_window))
             (refresh_tokens db) of
        (Some err, rows) \<Rightarrow> (Inl (Errorf ''failed to save refresh token'' err), db)
      | (None, rows) \<Rightarrow>
          (Inr \<lparr>resp_AccessToken = accessToken, resp_RefreshToken = refreshTokenStr,
                resp_User = toUserDTO user\<rparr>,
           db\<lparr>refresh_tokens := rows\<rparr>))))"

text \<open>
  \<open>Register\<close>. The look-up before the insert is made with the address of the request as it
  was sent, and its error is dropped: \<open>existing\<close> is \<open>nil\<close> whenever the look-up fails.
\<close>

definition AuthService_Register ::
  "Env \<Rightarrow> RegisterRequest \<Rightarrow> DB \<Rightarrow> (error + AuthResponse) \<times> DB" where
  "AuthService_Register env req db =
     (case UserRepo_FindByEmail (driver env UserFindByEmail) (req_Email req) (users db) of
        Inr existing \<Rightarrow> (Inl (AlreadyExistsError ''User'' ''email'' (req_Email req)), db)
      | Inl _ \<Rightarrow>
     (case GenerateFromPassword env (req_Password req) of
        Inl err \<Rightarrow> (Inl (Errorf ''failed to hash password'' err), db)
      | Inr hashedPassword \<Rightarrow>
     (case NewUser (new_user_id env) (Now env) (req_Email req) (req_Phone req)
             (req_FullName req) hashedPassword (req_Role req) of
        Inl msg \<Rightarrow> (Inl (ValidationError msg), db)
      | Inr user \<Rightarrow>
     (case UserRepo_Save (driver env UserSave) user (users db) of
        (Some err, rows) \<Rightarrow> (Inl (Errorf ''failed to save user'' err), db)
      | (None, rows) \<Rightarrow> issue_tokens env user (db\<lparr>users := rows\<rparr>)))))"

definition AuthService_Login ::
  "Env \<Rightarrow> LoginRequest \<Rightarrow> DB \<Rightarrow> (error + AuthResponse) \<times> DB" where
  "AuthService_Login env req db =
     (case UserRepo_FindByEmail (driver env UserFindByEmail) (login_Email req) (users db) of
        Inl err \<Rightarrow> (Inl (UnauthorizedError ''invalid email or password''), db)
      | Inr user \<Rightarrow>
     (case CompareHashAndPassword env (u_passwordHash user) (login_Password req) of
        Some err \<Rightarrow> (Inl (UnauthorizedError ''invalid email or password''), db)
      | None \<Rightarrow> issue_tokens env user db))"

text \<open>
  \<open>RefreshToken\<close>. \<open>storedToken.Revoke()\<close> sets the flag of the value \<open>FindByToken\<close> has
  built from the row; the value is not used afterwards and no statement writes it back
  (\<open>TokenRepository\<close> has no method that could).
\<close>

definition AuthService_RefreshToken ::
  "Env \<Rightarrow> string \<Rightarrow> DB \<Rightarrow> (error + AuthResponse) \<times> DB" where
  "AuthService_RefreshToken env token db =
     (case ValidateToken env token of
        Inl err \<Rightarrow> (Inl (UnauthorizedError ''invalid refresh token''), db)
      | Inr claims \<Rightarrow>
     (case TokenRepo_FindByToken (driver env TokenFindByToken) token (refresh_tokens db) of
        Inl err \<Rightarrow> (Inl (UnauthorizedError ''refresh token not found''), db)
      | Inr storedToken \<Rightarrow>
          if \<not> IsValid (Now env) storedToken
          then (Inl (UnauthorizedError ''refresh token is expired or revoked''), db)
          else
            let revokedToken = Revoke storedToken in
            (case UserRepo_FindByID (driver env UserFindByID) (UserID claims) (users db) of
               Inl err \<Rightarrow> (Inl (NotFoundError ''User'' (UserID claims)), db)
             | Inr user \<Rightarrow> issue_tokens env user db)))"

definition AuthService_Logout :: "Env \<Rightarrow> uuid \<Rightarrow> DB \<Rightarrow> error option \<times> DB" where
  "AuthService_Logout env userID db =
     (case TokenRepo_RevokeAllForUser (driver env TokenRevokeAllForUser) userID
             (refresh_tokens db) of
        (Some err, rows) \<Rightarrow> (Some (Errorf ''failed to revoke tokens'' err), db)
      | (None, rows) \<Rightarrow> (None, db\<lparr>refresh_tokens := rows\<rparr>))"

definition AuthService_GetProfile :: "Env \<Rightarrow> uuid \<Rightarrow> DB \<Rightarrow> error + UserDTO" where
  "AuthService_GetProfile env userID db =
     (case UserRepo_FindByID (driver env UserFindByID) userID (users db) of
        Inl err \<Rightarrow> Inl (NotFoundError ''User'' userID)
      | Inr user \<Rightarrow> Inr (toUserDTO user))"

definition AuthService_UpdateProfile ::
  "Env \<Rightarrow> uuid \<Rightarrow> UpdateProfileRequest \<Rightarrow> DB \<Rightarrow> (error + UserDTO) \<times> DB" where
  "AuthService_UpdateProfile env userID req db =
     (case UserRepo_FindByID (driver env UserFindByID) userID (users db) of
        Inl err \<Rightarrow> (Inl (NotFoundError ''User'' userID), db)
      | Inr user0 \<Rightarrow>
          let user = IncrementVersion (Now env)
                       (User_UpdateProfile (Now env) (upd_FullName req) (upd_Phone req)
                          (upd_AvatarURL req) user0) in
          (case UserRepo_Update (driver env UserUpdate) (Now env) user (users db) of
             (Some err, rows) \<Rightarrow>
               (Inl (Errorf ''failed to update user'' err), db\<lparr>users := rows\<rparr>)
           | (None, rows) \<Rightarrow> (Inr (toUserDTO user), db\<lparr>users := rows\<rparr>)))"

text \<open>
  \<open>BanUser\<close>. The error of \<open>RevokeAllForUser\<close> is assigned to the blank identifier; when the
  statement fails the table of tokens is as before.
\<close>

definition AuthService_BanUser :: "Env \<Rightarrow> uuid \<Rightarrow> DB \<Rightarrow> error option \<times> DB" where
  "AuthService_BanUser env userID db =
     (case UserRepo_FindByID (driver env UserFindByID) userID (users db) of
        Inl err \<Rightarrow> (Some (NotFoundError ''User'' userID), db)
      | Inr user0 \<Rightarrow>
          let user = IncrementVersion (Now env) (Deactivate (Now env) user0) in
          (case UserRepo_Update (driver env UserUpdate) (Now env) user (users db) of
             (Some err, rows) \<Rightarrow> (Some (Errorf ''failed to ban user'' err), db\<lparr>users := rows\<rparr>)
           | (None, rows) \<Rightarrow>
               (None, db\<lparr>users := rows,
                         refresh_tokens :=
                           snd (TokenRepo_RevokeAllForUser (driver env TokenRevokeAllForUser)
                                  userID (refresh_tokens db))\<rparr>)))"

subsection \<open>Sample data\<close>

text \<open>
  A database with one user, Alice, whose account is verified and who holds one refresh
  token, and the environment of a request in which every collaborator works: the bcrypt
  stand-in hashes a password \<open>p\<close> to \<open>hash:p\<close>, the JWT stand-in signs for user 1.
  \<open>sample_env2\<close> is the environment of a later request: a later instant, and a fresh
  identifier and a fresh token string for the refresh token it issues.
  In \<open>sample_env_down\<close> the driver reports a lost connection for every statement.
\<close>

definition sample_env :: Env where
  "sample_env =
     \<lparr>Now = 1000, new_user_id = 2, new_token_id = 11,
      GenerateFromPassword = (\<lambda>p. Inr (''hash:'' @ p)),
      CompareHashAndPassword =
        (\<lambda>h p. if h = ''hash:'' @ p then None
               else Some (LibError ''hashedPassword is not the hash of the given password'')),
      GenerateAccessToken = (\<lambda>i e r. Inr ''access-1''),
      GenerateRefreshToken = (\<lambda>i. Inr ''refresh-1''),
      ValidateToken =
        (\<lambda>t. if t \<in> set [''refresh-0'', ''refresh-1'', ''refresh-2'']
             then Inr \<lparr>UserID = 1\<rparr> else Inl (LibError ''token is malformed'')),
      driver = (\<lambda>s. None)\<rparr>"

definition sample_env2 :: Env where
  "sample_env2 =
     sample_env\<lparr>Now := 2000, new_token_id := 12,
                GenerateAccessToken := (\<lambda>i e r. Inr ''access-2''),
                GenerateRefreshToken := (\<lambda>i. Inr ''refresh-2'')\<rparr>"

definition sample_env_down :: Env where
  "sample_env_down = sample_env\<lparr>driver := (\<lambda>s. Some ''connection refused'')\<rparr>"

definition alice :: UserModel where
  "alice =
     \<lparr>um_ID = 1, um_Email = ''a@x.com'', um_Phone = [], um_PasswordHash = ''hash:longpass1'',
      um_FullName = ''Alice'', um_Role = ''owner'', um_IsVerified = True, um_AvatarURL = [],
      um_Version = 1, um_CreatedAt = 500, um_UpdatedAt = 500\<rparr>"

definition alice_token :: RefreshTokenModel where
  "alice_token =
     \<lparr>tm_ID = 10, tm_UserID = 1, tm_Token = ''refresh-0'', tm_ExpiresAt = 500 + refresh_window,
      tm_Revoked = False, tm_CreatedAt = 500\<rparr>"

definition sample_db :: DB where
  "sample_db = \<lparr>users = [alice], refresh_tokens = [alice_token]\<rparr>"

section \<open>Theorems\<close>

text \<open>The definitions, collected for unfolding.\<close>

lemmas entity_defs =
  NewRefreshToken_def ReconstructRefreshToken_def Revoke_def IsExpired_def IsValid_def
  ReconstructUser_def Verify_def User_UpdateProfile_def ChangePassword_def Deactivate_def
  IncrementVersion_def

lemmas repository_defs =
  toDomain_def fromDomainUser_def toDomainToken_def fromDomainRefreshToken_def
  UserRepo_FindByID_def UserRepo_FindByEmail_def UserRepo_Save_def Updates_def hit_def
  RowsAffected_def UserRepo_Update_def TokenRepo_Save_def TokenRepo_FindByToken_def
  TokenRepo_RevokeAllForUser_def

lemmas service_defs =
  toUserDTO_def refresh_window_def issue_tokens_def AuthService_Register_def
  AuthService_Login_def AuthService_RefreshToken_def AuthService_Logout_def
  AuthService_GetProfile_def AuthService_UpdateProfile_def AuthService_BanUser_def

lemmas sample_defs =
  sample_env_def sample_env2_def sample_env_down_def alice_def alice_token_def sample_db_def

subsection \<open>C6: validity of a refresh token\<close>

text \<open>
  C6, as stated: \<open>IsValid\<close> is true if and only if the token is not revoked and now is strictly
  before \<open>expiresAt\<close>. This fails at the instant \<open>now = expiresAt\<close>: \<open>IsExpired\<close> asks
  whether now is after the expiry, so a token that is not revoked is still valid at the very
  instant of its expiry.
\<close>

theorem IsValid_strict_counterexample:
  "\<not> (IsValid 5 \<lparr>t_id = 1, t_userID = 2, t_token = ''tok'', t_expiresAt = 5,
                  t_revoked = False, t_createdAt = 0\<rparr>
        = (\<not> t_revoked \<lparr>t_id = 1, t_userID = 2, t_token = ''tok'', t_expiresAt = 5,
                  t_revoked = False, t_createdAt = 0\<rparr>
           \<and> (5::int) < t_expiresAt \<lparr>t_id = 1, t_userID = 2, t_token = ''tok'', t_expiresAt = 5,
                  t_revoked = False, t_createdAt = 0\<rparr>))"
  by (simp add: IsValid_def IsExpired_def)

text \<open>
  C6, amended: for every RefreshToken record and every time now, \<open>IsValid\<close> is true if and only
  if the token is not revoked and now is not after \<open>expiresAt\<close> (now \<open>\<le>\<close> expiresAt); in
  particular it is false for any token past its expiry whatever the revoked flag, and false
  for any revoked token whatever the expiry.
\<close>

theorem IsValid_iff:
  "IsValid now t = (\<not> t_revoked t \<and> now \<le> t_expiresAt t)
   \<and> (t_expiresAt t < now \<longrightarrow> \<not> IsValid now t)
   \<and> (t_revoked t \<longrightarrow> \<not> IsValid now t)"
  by (auto simp: IsValid_def IsExpired_def)

theorem IsValid_iff_witness:
  "IsValid 4 (NewRefreshToken 1 0 2 ''tok'' 5)
   \<and> (5::int) < 6 \<and> \<not> IsValid 6 (NewRefreshToken 1 0 2 ''tok'' 5)
   \<and> t_revoked (Revoke (NewRefreshToken 1 0 2 ''tok'' 5))
   \<and> \<not> IsValid 4 (Revoke (NewRefreshToken 1 0 2 ''tok'' 5))"
  using IsValid_iff [of 4 "NewRefreshToken 1 0 2 ''tok'' 5"]
        IsValid_iff [of 6 "NewRefreshToken 1 0 2 ''tok'' 5"]
        IsValid_iff [of 4 "Revoke (NewRefreshToken 1 0 2 ''tok'' 5)"]
  by (simp add: NewRefreshToken_def Revoke_def)

subsection \<open>C4: the conditional write of the user store\<close>

text \<open>
  Among rows with distinct primary keys the \<open>WHERE\<close> clause of \<open>Update\<close> selects the row of
  the user when its version is the expected one, and no row otherwise.
\<close>

lemma filter_hit_unique:
  assumes "distinct (map um_ID rows)" and "r \<in> set rows" and "um_ID r = um_ID model"
  shows "filter (hit model) rows = (if um_Version r = um_Version model - 1 then [r] else [])"
  using assms unfolding hit_def
proof (induction rows)
  case Nil
  then show ?case by simp
next
  case (Cons x xs)
  show ?case
  proof (cases "x = r")
    case True
    with Cons.prems have "\<forall>y\<in>set xs. um_ID y \<noteq> um_ID model"
      by (auto simp: image_iff)
    then have "filter (\<lambda>r. um_ID r = um_ID model \<and> um_Version r = um_Version model - 1) xs = []"
      by (auto simp: filter_empty_conv)
    with True Cons.prems show ?thesis by simp
  next
    case False
    with Cons.prems have "r \<in> set xs" "distinct (map um_ID xs)" "um_ID x \<noteq> um_ID model"
      by (auto simp: image_iff)
    with Cons.IH Cons.prems show ?thesis by simp
  qed
qed

text \<open>
  The statement at a stored row of the user: it writes that row, and only it, when the
  stored version is the expected one, and writes nothing otherwise.
\<close>

lemma Update_at_row:
  assumes "distinct (map um_ID rows)" and "r \<in> set rows" and "um_ID r = u_id user"
  shows "UserRepo_Update None now user rows =
           (if um_Version r = u_version user - 1
            then (None, map (\<lambda>x. if um_ID x = u_id user
                                   then Updates now (fromDomainUser user) x else x) rows)
            else (Some (ConflictError ''user was modified by another transaction''), rows))
         \<and> RowsAffected (fromDomainUser user) rows
             = (if um_Version r = u_version user - 1 then 1 else 0)"
proof -
  let ?m = "fromDomainUser user"
  have id: "um_ID ?m = u_id user" and ver: "um_Version ?m = u_version user"
    by (simp_all add: fromDomainUser_def)
  have f: "filter (hit ?m) rows = (if um_Version r = u_version user - 1 then [r] else [])"
    using filter_hit_unique [OF assms(1,2), of ?m] assms(3) id ver by simp
  have same_id: "\<And>x. x \<in> set rows \<Longrightarrow> um_ID x = u_id user \<Longrightarrow> x = r"
    using assms by (metis distinct_map inj_onD)
  show ?thesis
  proof (cases "um_Version r = u_version user - 1")
    case True
    have "map (\<lambda>x. if hit ?m x then Updates now ?m x else x) rows
        = map (\<lambda>x. if um_ID x = u_id user then Updates now ?m x else x) rows"
      by (rule map_cong [OF refl]) (use same_id True id ver in \<open>auto simp: hit_def\<close>)
    with True f show ?thesis
      by (simp add: UserRepo_Update_def RowsAffected_def Let_def)
  next
    case False
    have "map (\<lambda>x. if hit ?m x then Updates now ?m x else x) rows = map (\<lambda>x. x) rows"
      by (rule map_cong [OF refl]) (use same_id False id ver in \<open>auto simp: hit_def\<close>)
    with False f show ?thesis
      by (simp add: UserRepo_Update_def RowsAffected_def Let_def)
  qed
qed

text \<open>
  The table a successful write leaves: its primary keys are as before, and the row of the
  user carries the written version (the written version is not the zero value of \<open>int64\<close>,
  which the assignment would skip).
\<close>

lemma Update_committed_row:
  assumes "distinct (map um_ID rows)" and "r \<in> set rows" and "um_ID r = u_id user"
      and "u_version user \<noteq> 0"
  shows "distinct (map um_ID (map (\<lambda>x. if um_ID x = u_id user
                                       then Updates now (fromDomainUser user) x else x) rows))
       \<and> Updates now (fromDomainUser user) r
           \<in> set (map (\<lambda>x. if um_ID x = u_id user
                            then Updates now (fromDomainUser user) x else x) rows)
       \<and> um_ID (Updates now (fromDomainUser user) r) = u_id user
       \<and> um_Version (Updates now (fromDomainUser user) r) = u_version user"
proof -
  define f where "f = (\<lambda>x. if um_ID x = u_id user
                            then Updates now (fromDomainUser user) x else x)"
  have keep: "um_ID (f x) = um_ID x" for x
    by (simp add: f_def Updates_def fromDomainUser_def)
  have eq: "map um_ID (map f rows) = map um_ID rows"
    by (induction rows) (simp_all add: keep)
  have d: "distinct (map um_ID (map f rows))"
    using assms(1) by (simp only: eq)
  have "f r \<in> set (map f rows)"
    using assms(2) by (induction rows) auto
  moreover have "f r = Updates now (fromDomainUser user) r"
    using assms(3) by (simp add: f_def)
  ultimately have m: "Updates now (fromDomainUser user) r \<in> set (map f rows)"
    by simp
  have i: "um_ID (Updates now (fromDomainUser user) r) = u_id user"
    using assms(3) by (simp add: Updates_def fromDomainUser_def)
  have v: "um_Version (Updates now (fromDomainUser user) r) = u_version user"
    using assms(4) by (simp add: Updates_def fromDomainUser_def)
  from d m i v show ?thesis
    unfolding f_def by (intro conjI)
qed

text \<open>
  C4: for every user and every stored row of that user (in a table whose primary keys are
  distinct), the statement of \<open>Update\<close>, when the database executes it, is a conditional
  write keyed on the id and the expected prior version. It succeeds, affecting exactly one
  row (the user's, which receives the assignments of \<open>Updates\<close>; every other row is as
  before), if and only if the stored version equals the written version minus 1; otherwise
  zero rows are affected, the table is as before and the result is the Conflict error.

  It is one statement, not a read followed by a write: the test of the version and the
  write are made on the same table, the one the statement meets, whatever table the writer
  had read when it built its aggregate (\<open>rows\<close> is any table; the theorem does not relate it
  to \<open>user\<close>). So no update is lost: when two writers have built their aggregates from the
  same stored row, both expecting its version, and the statement of the first has
  succeeded, the statement of the second, executed on the table the first has left,
  affects zero rows, returns Conflict and leaves the write of the first as it is (the
  written version is not 0, the zero value the assignment of \<open>Updates\<close> skips).
\<close>

theorem UserRepo_Update_conditional:
  assumes "distinct (map um_ID rows)" and "r \<in> set rows" and "um_ID r = u_id user"
  shows "UserRepo_Update None now user rows =
           (if um_Version r = u_version user - 1
            then (None, map (\<lambda>x. if um_ID x = u_id user
                                   then Updates now (fromDomainUser user) x else x) rows)
            else (Some (ConflictError ''user was modified by another transaction''), rows))
         \<and> RowsAffected (fromDomainUser user) rows
             = (if um_Version r = u_version user - 1 then 1 else 0)
         \<and> (um_Version r = u_version user - 1 \<and> u_version user \<noteq> 0
              \<and> u_id user2 = u_id user \<and> u_version user2 = u_version user \<longrightarrow>
             UserRepo_Update None now2 user2 (snd (UserRepo_Update None now user rows))
               = (Some (ConflictError ''user was modified by another transaction''),
                  snd (UserRepo_Update None now user rows))
             \<and> RowsAffected (fromDomainUser user2) (snd (UserRepo_Update None now user rows))
                 = 0)"
proof (intro conjI impI)
  assume a: "um_Version r = u_version user - 1 \<and> u_version user \<noteq> 0
              \<and> u_id user2 = u_id user \<and> u_version user2 = u_version user"
  define rows1 where "rows1 = map (\<lambda>x. if um_ID x = u_id user
                                          then Updates now (fromDomainUser user) x else x) rows"
  define r1 where "r1 = Updates now (fromDomainUser user) r"
  have first: "snd (UserRepo_Update None now user rows) = rows1"
    using Update_at_row [OF assms, of now] a by (simp add: rows1_def)
  from a have nz: "u_version user \<noteq> 0" by simp
  have c: "distinct (map um_ID rows1)" "r1 \<in> set rows1" "um_ID r1 = u_id user"
          "um_Version r1 = u_version user"
    using Update_committed_row [OF assms nz, of now] unfolding rows1_def r1_def by blast+
  have i2: "um_ID r1 = u_id user2"
    using c(3) a by simp
  have stale: "um_Version r1 \<noteq> u_version user2 - 1"
    using c(4) a by simp
  have second: "UserRepo_Update None now2 user2 rows1
                  = (Some (ConflictError ''user was modified by another transaction''), rows1)
                \<and> RowsAffected (fromDomainUser user2) rows1 = 0"
    using Update_at_row [OF c(1,2) i2, of now2] stale by simp
  show "UserRepo_Update None now2 user2 (snd (UserRepo_Update None now user rows))
          = (Some (ConflictError ''user was modified by another transaction''),
             snd (UserRepo_Update None now user rows))"
    using second by (simp add: first)
  show "RowsAffected (fromDomainUser user2) (snd (UserRepo_Update None now user rows)) = 0"
    using second by (simp add: first)
qed (use Update_at_row [OF assms, of now] in simp_all)

text \<open>
  Witness: Alice is stored at version 1. Writing her aggregate at version 2 succeeds and
  affects one row; writing it at version 6 (expected prior version 5) is a conflict. And
  a second writer, who has loaded Alice at version 1 as well (to deactivate her), sends
  its write at version 2 after the first has succeeded: a conflict, and the table is as
  the first writer left it.
\<close>

theorem UserRepo_Update_conditional_witness:
  "distinct (map um_ID [alice]) \<and> alice \<in> set [alice]
   \<and> um_ID alice = u_id (IncrementVersion 1000 (toDomain alice))
   \<and> UserRepo_Update None 1000 (IncrementVersion 1000 (toDomain alice)) [alice]
       = (None, [alice\<lparr>um_Version := 2, um_UpdatedAt := 1000\<rparr>])
   \<and> RowsAffected (fromDomainUser (IncrementVersion 1000 (toDomain alice))) [alice] = 1
   \<and> UserRepo_Update None 1000 ((toDomain alice)\<lparr>u_version := 6\<rparr>) [alice]
       = (Some (ConflictError ''user was modified by another transaction''), [alice])
   \<and> RowsAffected (fromDomainUser ((toDomain alice)\<lparr>u_version := 6\<rparr>)) [alice] = 0
   \<and> um_Version alice = u_version (IncrementVersion 1000 (toDomain alice)) - 1
   \<and> u_version (IncrementVersion 1000 (toDomain alice)) \<noteq> 0
   \<and> u_id (IncrementVersion 1001 (Deactivate 1001 (toDomain alice)))
       = u_id (IncrementVersion 1000 (toDomain alice))
   \<and> u_version (IncrementVersion 1001 (Deactivate 1001 (toDomain alice)))
       = u_version (IncrementVersion 1000 (toDomain alice))
   \<and> UserRepo_Update None 1001 (IncrementVersion 1001 (Deactivate 1001 (toDomain alice)))
       [alice\<lparr>um_Version := 2, um_UpdatedAt := 1000\<rparr>]
       = (Some (ConflictError ''user was modified by another transaction''),
          [alice\<lparr>um_Version := 2, um_UpdatedAt := 1000\<rparr>])"
proof -
  let ?u1 = "IncrementVersion 1000 (toDomain alice)"
  let ?u2 = "IncrementVersion 1001 (Deactivate 1001 (toDomain alice))"
  have d: "distinct (map um_ID [alice])" and m: "alice \<in> set [alice]"
    by simp_all
  have i1: "um_ID alice = u_id ?u1"
    by (simp add: entity_defs toDomain_def)
  have i2: "um_ID alice = u_id ((toDomain alice)\<lparr>u_version := 6\<rparr>)"
    by (simp add: entity_defs toDomain_def)
  have s: "um_Version alice = u_version ?u1 - 1 \<and> u_version ?u1 \<noteq> 0
           \<and> u_id ?u2 = u_id ?u1 \<and> u_version ?u2 = u_version ?u1"
    by (simp add: entity_defs toDomain_def alice_def)
  have first: "UserRepo_Update None 1000 ?u1 [alice]
                 = (None, [alice\<lparr>um_Version := 2, um_UpdatedAt := 1000\<rparr>])"
    by (simp add: repository_defs entity_defs alice_def)
  show ?thesis
    using s first
          UserRepo_Update_conditional [OF d m i1, of 1000 ?u2 1001]
          UserRepo_Update_conditional [OF d m i2, of 1000]
    by (simp add: entity_defs toDomain_def fromDomainUser_def Updates_def alice_def)
qed

text \<open>When no row has the id of the user, zero rows are affected: Conflict as well.\<close>

lemma UserRepo_Update_absent:
  assumes "\<not> list_ex (\<lambda>x. um_ID x = u_id user) rows"
  shows "UserRepo_Update None now user rows =
           (Some (ConflictError ''user was modified by another transaction''), rows)"
proof -
  have "\<And>x. x \<in> set rows \<Longrightarrow> \<not> hit (fromDomainUser user) x"
    using assms by (auto simp: hit_def fromDomainUser_def list_ex_iff)
  then have "filter (hit (fromDomainUser user)) rows = []"
    and "map (\<lambda>x. if hit (fromDomainUser user) x then Updates now (fromDomainUser user) x else x)
           rows = rows"
    by (simp_all add: filter_empty_conv map_idI)
  then show ?thesis
    by (simp add: UserRepo_Update_def RowsAffected_def Let_def)
qed

subsection \<open>C5: the two failures of Login are indistinguishable\<close>

text \<open>
  C5: a Login that fails because the look-up by e-mail fails (the address is unknown), and
  a Login that fails because the password does not match the hash, return the same error:
  Unauthorized with the message \<open>invalid email or password\<close>, and leave the database as it
  was. This holds for any two requests, environments and databases.
\<close>

theorem Login_failure_indistinguishable:
  assumes "UserRepo_FindByEmail (driver env1 UserFindByEmail) (login_Email req1) (users db1)
             = Inl e1"
      and "UserRepo_FindByEmail (driver env2 UserFindByEmail) (login_Email req2) (users db2)
             = Inr user"
      and "CompareHashAndPassword env2 (u_passwordHash user) (login_Password req2) = Some e2"
  shows "AuthService_Login env1 req1 db1
           = (Inl (UnauthorizedError ''invalid email or password''), db1)
       \<and> AuthService_Login env2 req2 db2
           = (Inl (UnauthorizedError ''invalid email or password''), db2)
       \<and> fst (AuthService_Login env1 req1 db1) = fst (AuthService_Login env2 req2 db2)"
  using assms by (simp add: AuthService_Login_def)

text \<open>
  Witness: on the sample database, a login for an address nobody has registered and a
  login for Alice with a wrong password.
\<close>

theorem Login_failure_indistinguishable_witness:
  "UserRepo_FindByEmail (driver sample_env UserFindByEmail)
     (login_Email \<lparr>login_Email = ''nobody@x.com'', login_Password = ''longpass1''\<rparr>)
     (users sample_db) = Inl ErrNotFound
   \<and> UserRepo_FindByEmail (driver sample_env UserFindByEmail)
       (login_Email \<lparr>login_Email = ''a@x.com'', login_Password = ''wrongpass''\<rparr>)
       (users sample_db) = Inr (toDomain alice)
   \<and> CompareHashAndPassword sample_env (u_passwordHash (toDomain alice))
       (login_Password \<lparr>login_Email = ''a@x.com'', login_Password = ''wrongpass''\<rparr>)
       = Some (LibError ''hashedPassword is not the hash of the given password'')
   \<and> AuthService_Login sample_env
       \<lparr>login_Email = ''nobody@x.com'', login_Password = ''longpass1''\<rparr> sample_db
       = (Inl (UnauthorizedError ''invalid email or password''), sample_db)
   \<and> AuthService_Login sample_env
       \<lparr>login_Email = ''a@x.com'', login_Password = ''wrongpass''\<rparr> sample_db
       = (Inl (UnauthorizedError ''invalid email or password''), sample_db)"
proof -
  let ?r1 = "\<lparr>login_Email = ''nobody@x.com'', login_Password = ''longpass1''\<rparr>"
  let ?r2 = "\<lparr>login_Email = ''a@x.com'', login_Password = ''wrongpass''\<rparr>"
  have h1: "UserRepo_FindByEmail (driver sample_env UserFindByEmail) (login_Email ?r1)
              (users sample_db) = Inl ErrNotFound"
    by (simp add: sample_defs UserRepo_FindByEmail_def)
  have h2: "UserRepo_FindByEmail (driver sample_env UserFindByEmail) (login_Email ?r2)
              (users sample_db) = Inr (toDomain alice)"
    by (simp add: sample_defs UserRepo_FindByEmail_def)
  have h3: "CompareHashAndPassword sample_env (u_passwordHash (toDomain alice))
              (login_Password ?r2)
            = Some (LibError ''hashedPassword is not the hash of the given password'')"
    by (simp add: sample_defs toDomain_def ReconstructUser_def)
  show ?thesis
    using h1 h2 h3 Login_failure_indistinguishable [OF h1 h2 h3]
    by simp
qed

subsection \<open>C7: UpdateProfile is a partial update\<close>



subsection \<open>C8: Logout\<close>

lemma revoke_all_twice:
  "map (\<lambda>r. if tm_UserID r = userID \<and> \<not> tm_Revoked r then r\<lparr>tm_Revoked := True\<rparr> else r)
     (map (\<lambda>r. if tm_UserID r = userID \<and> \<not> tm_Revoked r then r\<lparr>tm_Revoked := True\<rparr> else r)
        rows)
   = map (\<lambda>r. if tm_UserID r = userID \<and> \<not> tm_Revoked r then r\<lparr>tm_Revoked := True\<rparr> else r)
       rows"
  by (induction rows) auto

lemma revoke_all_flag:
  "map (\<lambda>r. if tm_UserID r = userID \<and> \<not> tm_Revoked r then r\<lparr>tm_Revoked := True\<rparr> else r) rows
   = map (\<lambda>r. if tm_UserID r = userID then r\<lparr>tm_Revoked := True\<rparr> else r) rows"
  by (induction rows) auto

lemma revoke_all_no_tokens:
  "filter (\<lambda>r. tm_UserID r = userID) rows = [] \<Longrightarrow>
   map (\<lambda>r. if tm_UserID r = userID \<and> \<not> tm_Revoked r then r\<lparr>tm_Revoked := True\<rparr> else r) rows
   = rows"
  by (induction rows) (auto split: if_splits)

text \<open>
  C8, as stated: Logout never returns an error to the caller. This fails when the database
  does not execute the statement of \<open>RevokeAllForUser\<close>: \<open>Logout\<close> tests the error of the
  repository and returns it, wrapped. Here user 2 has no token at all, the driver reports a
  lost connection, and \<open>Logout\<close> returns an error.
\<close>

theorem Logout_error_counterexample:
  "map tm_UserID (refresh_tokens sample_db) = [1]
   \<and> AuthService_Logout sample_env_down 2 sample_db
       = (Some (Errorf ''failed to revoke tokens'' (LibError ''connection refused'')), sample_db)
   \<and> fst (AuthService_Logout sample_env_down 2 sample_db) \<noteq> None"
  by (simp add: sample_defs AuthService_Logout_def TokenRepo_RevokeAllForUser_def)

text \<open>
  C8, amended: for every user id, whenever the database executes the bulk statement,
  Logout returns no error, also when the user has zero tokens (the database is then as
  before); afterwards every refresh token of that user is revoked, the tokens of other users
  and the table of users are as before; and it is idempotent: a second Logout of the same
  user changes nothing more (whether or not its statement is executed). When the database does not execute the statement, Logout
  returns that failure, wrapped, and the database is as before.
\<close>

theorem Logout_revokes_idempotent:
  "(driver env TokenRevokeAllForUser = None \<longrightarrow>
      fst (AuthService_Logout env userID db) = None
    \<and> users (snd (AuthService_Logout env userID db)) = users db
    \<and> refresh_tokens (snd (AuthService_Logout env userID db))
        = map (\<lambda>r. if tm_UserID r = userID then r\<lparr>tm_Revoked := True\<rparr> else r)
            (refresh_tokens db)
    \<and> (driver env' TokenRevokeAllForUser = None \<longrightarrow>
         AuthService_Logout env' userID (snd (AuthService_Logout env userID db))
           = (None, snd (AuthService_Logout env userID db)))
    \<and> snd (AuthService_Logout env' userID (snd (AuthService_Logout env userID db)))
        = snd (AuthService_Logout env userID db)
    \<and> (filter (\<lambda>r. tm_UserID r = userID) (refresh_tokens db) = [] \<longrightarrow>
         AuthService_Logout env userID db = (None, db)))
   \<and> (\<forall>e. driver env TokenRevokeAllForUser = Some e \<longrightarrow>
         AuthService_Logout env userID db
           = (Some (Errorf ''failed to revoke tokens'' (LibError e)), db))"
proof -
  let ?rev = "\<lambda>rows. map (\<lambda>r. if tm_UserID r = userID \<and> \<not> tm_Revoked r
                                 then r\<lparr>tm_Revoked := True\<rparr> else r) rows"
  have ok: "AuthService_Logout e userID d = (None, d\<lparr>refresh_tokens := ?rev (refresh_tokens d)\<rparr>)"
    if "driver e TokenRevokeAllForUser = None" for e d
    using that by (simp add: AuthService_Logout_def TokenRepo_RevokeAllForUser_def)
  have down: "AuthService_Logout env userID db
                = (Some (Errorf ''failed to revoke tokens'' (LibError e)), db)"
    if "driver env TokenRevokeAllForUser = Some e" for e
    using that by (simp add: AuthService_Logout_def TokenRepo_RevokeAllForUser_def)
  have none: "db\<lparr>refresh_tokens := ?rev (refresh_tokens db)\<rparr> = db"
    if "filter (\<lambda>r. tm_UserID r = userID) (refresh_tokens db) = []"
    using revoke_all_no_tokens [OF that] by simp
  have any: "snd (AuthService_Logout e userID d) = d
               \<or> snd (AuthService_Logout e userID d) = d\<lparr>refresh_tokens := ?rev (refresh_tokens d)\<rparr>"
    for e d
    by (cases "driver e TokenRevokeAllForUser")
       (simp_all add: AuthService_Logout_def TokenRepo_RevokeAllForUser_def)
  show ?thesis
  proof (intro conjI impI allI)
    fix e assume "driver env TokenRevokeAllForUser = Some e"
    then show "AuthService_Logout env userID db
                 = (Some (Errorf ''failed to revoke tokens'' (LibError e)), db)"
      by (rule down)
  next
    assume "driver env TokenRevokeAllForUser = None"
    then show "snd (AuthService_Logout env' userID (snd (AuthService_Logout env userID db)))
                 = snd (AuthService_Logout env userID db)"
      using any [of env' "snd (AuthService_Logout env userID db)"]
      by (auto simp: ok revoke_all_twice)
  next
    assume "driver env TokenRevokeAllForUser = None"
       and "filter (\<lambda>r. tm_UserID r = userID) (refresh_tokens db) = []"
    then show "AuthService_Logout env userID db = (None, db)"
      by (simp add: ok none)
  next
    assume "driver env TokenRevokeAllForUser = None"
       and "driver env' TokenRevokeAllForUser = None"
    then show "AuthService_Logout env' userID (snd (AuthService_Logout env userID db))
                 = (None, snd (AuthService_Logout env userID db))"
      by (simp add: ok revoke_all_twice)
  qed (simp_all add: ok revoke_all_flag)
qed

text \<open>
  Witness: Alice (user 1) logs out twice, user 2, who has no token, logs out once, and
  user 2 logs out while the connection is lost.
\<close>

theorem Logout_revokes_idempotent_witness:
  "driver sample_env TokenRevokeAllForUser = None
   \<and> driver sample_env2 TokenRevokeAllForUser = None
   \<and> AuthService_Logout sample_env 1 sample_db
       = (None, sample_db\<lparr>refresh_tokens := [alice_token\<lparr>tm_Revoked := True\<rparr>]\<rparr>)
   \<and> AuthService_Logout sample_env2 1 (snd (AuthService_Logout sample_env 1 sample_db))
       = (None, sample_db\<lparr>refresh_tokens := [alice_token\<lparr>tm_Revoked := True\<rparr>]\<rparr>)
   \<and> filter (\<lambda>r. tm_UserID r = 2) (refresh_tokens sample_db) = []
   \<and> AuthService_Logout sample_env 2 sample_db = (None, sample_db)
   \<and> driver sample_env_down TokenRevokeAllForUser = Some ''connection refused''
   \<and> AuthService_Logout sample_env_down 2 sample_db
       = (Some (Errorf ''failed to revoke tokens'' (LibError ''connection refused'')), sample_db)"
proof -
  have d1: "driver sample_env TokenRevokeAllForUser = None"
    and d2: "driver sample_env2 TokenRevokeAllForUser = None"
    and d3: "driver sample_env_down TokenRevokeAllForUser = Some ''connection refused''"
    by (simp_all add: sample_defs)
  have z: "filter (\<lambda>r. tm_UserID r = 2) (refresh_tokens sample_db) = []"
    by (simp add: sample_defs)
  have r: "refresh_tokens sample_db = [alice_token]" and u: "tm_UserID alice_token = 1"
    by (simp_all add: sample_defs)
  have eq: "sample_db\<lparr>refresh_tokens := [alice_token\<lparr>tm_Revoked := True\<rparr>]\<rparr>
              = snd (AuthService_Logout sample_env 1 sample_db)"
    using Logout_revokes_idempotent [of sample_env 1 sample_db sample_env2] d1 r u
    by (cases "AuthService_Logout sample_env 1 sample_db") (simp add: sample_db_def)
  show ?thesis
    using d1 d2 d3 z eq
      Logout_revokes_idempotent [of sample_env 1 sample_db sample_env2]
      Logout_revokes_idempotent [of sample_env 2 sample_db sample_env2]
      Logout_revokes_idempotent [of sample_env_down 2 sample_db sample_env2]
    by (metis (no_types, lifting) option.distinct(1) prod.collapse)
qed

subsection \<open>C10: Login does not read the verified flag\<close>

lemma find_by_email_flags:
  "find (\<lambda>r. um_Email r = e) (map (\<lambda>r. r\<lparr>um_IsVerified := flag r\<rparr>) rows)
   = map_option (\<lambda>r. r\<lparr>um_IsVerified := flag r\<rparr>) (find (\<lambda>r. um_Email r = e) rows)"
  by (induction rows) auto

text \<open>
  C10: take any table of users and give the rows any verified flags whatever (\<open>flag\<close>
  chooses the flag of each row; a banned user has \<open>False\<close>). If the look-up by the e-mail
  address of the request is executed and finds a row, the password matches the hash of
  that row, the JWT manager issues the two tokens and the insert of the refresh token is
  executed and accepted, then Login succeeds: it answers with the fresh access/refresh
  pair and the view of the user and stores the new refresh token. None of these
  conditions mentions the flag: Login never reads it.
\<close>

theorem Login_ignores_verified:
  assumes "driver env UserFindByEmail = None"
      and "find (\<lambda>r. um_Email r = login_Email req) rows = Some m"
      and "CompareHashAndPassword env (um_PasswordHash m) (login_Password req) = None"
      and "GenerateAccessToken env (um_ID m) (um_Email m) (um_Role m) = Inr a"
      and "GenerateRefreshToken env (um_ID m) = Inr rt"
      and "driver env TokenSave = None"
      and "\<not> list_ex (\<lambda>r. tm_ID r = new_token_id env) toks"
      and "\<not> list_ex (\<lambda>r. tm_Token r = rt) toks"
  shows "AuthService_Login env req
           \<lparr>users = map (\<lambda>r. r\<lparr>um_IsVerified := flag r\<rparr>) rows, refresh_tokens = toks\<rparr>
         = (Inr \<lparr>resp_AccessToken = a, resp_RefreshToken = rt,
                 resp_User = toUserDTO (toDomain (m\<lparr>um_IsVerified := flag m\<rparr>))\<rparr>,
            \<lparr>users = map (\<lambda>r. r\<lparr>um_IsVerified := flag r\<rparr>) rows,
             refresh_tokens = toks @
               [\<lparr>tm_ID = new_token_id env, tm_UserID = um_ID m, tm_Token = rt,
                 tm_ExpiresAt = Now env + refresh_window, tm_Revoked = False,
                 tm_CreatedAt = Now env\<rparr>]\<rparr>)"
  using assms
  by (simp add: AuthService_Login_def UserRepo_FindByEmail_def find_by_email_flags
        issue_tokens_def TokenRepo_Save_def toDomain_def ReconstructUser_def
        fromDomainRefreshToken_def NewRefreshToken_def Let_def)

text \<open>
  Witness: Alice's row with the flag cleared, as for a deactivated account, and her only
  refresh token revoked; she logs in with her password and receives a fresh pair. And the
  same login on the database \<open>BanUser\<close> leaves behind.
\<close>

theorem Login_ignores_verified_witness:
  "driver sample_env2 UserFindByEmail = None
   \<and> find (\<lambda>r. um_Email r = ''a@x.com'') [alice] = Some alice
   \<and> CompareHashAndPassword sample_env2 (um_PasswordHash alice) ''longpass1'' = None
   \<and> driver sample_env2 TokenSave = None
   \<and> AuthService_Login sample_env2 \<lparr>login_Email = ''a@x.com'', login_Password = ''longpass1''\<rparr>
       \<lparr>users = [alice\<lparr>um_IsVerified := False\<rparr>],
        refresh_tokens = [alice_token\<lparr>tm_Revoked := True\<rparr>]\<rparr>
     = (Inr \<lparr>resp_AccessToken = ''access-2'', resp_RefreshToken = ''refresh-2'',
             resp_User = toUserDTO (toDomain (alice\<lparr>um_IsVerified := False\<rparr>))\<rparr>,
        \<lparr>users = [alice\<lparr>um_IsVerified := False\<rparr>],
         refresh_tokens = [alice_token\<lparr>tm_Revoked := True\<rparr>,
           \<lparr>tm_ID = 12, tm_UserID = 1, tm_Token = ''refresh-2'',
            tm_ExpiresAt = 2000 + refresh_window, tm_Revoked = False, tm_CreatedAt = 2000\<rparr>]\<rparr>)
   \<and> fst (AuthService_BanUser sample_env 1 sample_db) = None
   \<and> fst (AuthService_Login sample_env2
            \<lparr>login_Email = ''a@x.com'', login_Password = ''longpass1''\<rparr>
            (snd (AuthService_BanUser sample_env 1 sample_db)))
     = Inr \<lparr>resp_AccessToken = ''access-2'', resp_RefreshToken = ''refresh-2'',
            resp_User = toUserDTO (toDomain (alice\<lparr>um_Version := 2, um_UpdatedAt := 1000\<rparr>))\<rparr>"
proof -
  let ?req = "\<lparr>login_Email = ''a@x.com'', login_Password = ''longpass1''\<rparr>"
  let ?toks = "[alice_token\<lparr>tm_Revoked := True\<rparr>]"
  let ?banned = "alice\<lparr>um_Version := 2, um_UpdatedAt := 1000\<rparr>"
  have ban: "AuthService_BanUser sample_env 1 sample_db
               = (None, \<lparr>users = map (\<lambda>r. r\<lparr>um_IsVerified := um_IsVerified r\<rparr>) [?banned],
                         refresh_tokens = ?toks\<rparr>)"
    by (simp add: sample_defs service_defs repository_defs entity_defs)
  have b2: "find (\<lambda>r. um_Email r = login_Email ?req) [?banned] = Some ?banned"
    by (simp add: alice_def)
  have b3: "CompareHashAndPassword sample_env2 (um_PasswordHash ?banned) (login_Password ?req)
              = None"
    by (simp add: sample_defs)
  have b4: "GenerateAccessToken sample_env2 (um_ID ?banned) (um_Email ?banned) (um_Role ?banned)
              = Inr ''access-2''"
    and b5: "GenerateRefreshToken sample_env2 (um_ID ?banned) = Inr ''refresh-2''"
    by (simp_all add: sample_defs)
  have h1: "driver sample_env2 UserFindByEmail = None"
    and h6: "driver sample_env2 TokenSave = None"
    by (simp_all add: sample_defs)
  have h2: "find (\<lambda>r. um_Email r = login_Email ?req) [alice] = Some alice"
    by (simp add: alice_def)
  have h3: "CompareHashAndPassword sample_env2 (um_PasswordHash alice) (login_Password ?req)
              = None"
    by (simp add: sample_defs)
  have h4: "GenerateAccessToken sample_env2 (um_ID alice) (um_Email alice) (um_Role alice)
              = Inr ''access-2''"
    and h5: "GenerateRefreshToken sample_env2 (um_ID alice) = Inr ''refresh-2''"
    by (simp_all add: sample_defs)
  have h7: "\<not> list_ex (\<lambda>r. tm_ID r = new_token_id sample_env2) ?toks"
    and h8: "\<not> list_ex (\<lambda>r. tm_Token r = ''refresh-2'') ?toks"
    by (simp_all add: sample_defs)
  have n: "Now sample_env2 = 2000" and i: "new_token_id sample_env2 = 12"
    and a: "um_ID alice = 1"
    by (simp_all add: sample_defs)
  show ?thesis
    using h1 h2 h3 h6
      Login_ignores_verified [OF h1 h2 h3 h4 h5 h6 h7 h8, of "\<lambda>r. False"]
      Login_ignores_verified [OF h1 b2 b3 b4 b5 h6 h7 h8, of um_IsVerified]
    by (simp add: n i a ban)
qed

subsection \<open>C1: rotation of refresh tokens\<close>

text \<open>
  A successful \<open>RefreshToken\<close> adds the row of the new token and changes nothing else: the
  row of the presented token is as it was, so its \<open>revoked\<close> column is still false.
\<close>

lemma RefreshToken_appends_only:
  assumes "AuthService_RefreshToken env token db = (Inr resp, db')"
  shows "users db' = users db \<and> (\<exists>row. refresh_tokens db' = refresh_tokens db @ [row])"
  using assms
  by (auto simp: AuthService_RefreshToken_def issue_tokens_def TokenRepo_Save_def Let_def
           split: sum.splits if_splits option.splits prod.splits)

text \<open>
  C1 on the code: Alice presents her refresh token \<open>refresh-0\<close>; the call succeeds and issues
  \<open>refresh-1\<close>. She (or whoever has a copy) presents \<open>refresh-0\<close> again in a later request:
  the claim demands Unauthorized, the code succeeds once more and issues \<open>refresh-2\<close>.
  After both calls the row of \<open>refresh-0\<close> is still not revoked.
\<close>

theorem RefreshToken_replay_succeeds:
  "AuthService_RefreshToken sample_env ''refresh-0'' sample_db
     = (Inr \<lparr>resp_AccessToken = ''access-1'', resp_RefreshToken = ''refresh-1'',
             resp_User = toUserDTO (toDomain alice)\<rparr>,
        sample_db\<lparr>refresh_tokens :=
          [alice_token,
           \<lparr>tm_ID = 11, tm_UserID = 1, tm_Token = ''refresh-1'',
            tm_ExpiresAt = 1000 + refresh_window, tm_Revoked = False, tm_CreatedAt = 1000\<rparr>]\<rparr>)
   \<and> AuthService_RefreshToken sample_env2 ''refresh-0''
       (snd (AuthService_RefreshToken sample_env ''refresh-0'' sample_db))
     = (Inr \<lparr>resp_AccessToken = ''access-2'', resp_RefreshToken = ''refresh-2'',
             resp_User = toUserDTO (toDomain alice)\<rparr>,
        sample_db\<lparr>refresh_tokens :=
          [alice_token,
           \<lparr>tm_ID = 11, tm_UserID = 1, tm_Token = ''refresh-1'',
            tm_ExpiresAt = 1000 + refresh_window, tm_Revoked = False, tm_CreatedAt = 1000\<rparr>,
           \<lparr>tm_ID = 12, tm_UserID = 1, tm_Token = ''refresh-2'',
            tm_ExpiresAt = 2000 + refresh_window, tm_Revoked = False, tm_CreatedAt = 2000\<rparr>]\<rparr>)
   \<and> tm_Token alice_token = ''refresh-0'' \<and> tm_Revoked alice_token = False"
  by (simp add: sample_defs service_defs repository_defs entity_defs)

subsection \<open>C2: registering an e-mail address twice\<close>

text \<open>
  The look-up before the insert answers AlreadyExists when it finds a row whose address is
  the string of the request.
\<close>

lemma Register_same_string_AlreadyExists:
  assumes "driver env UserFindByEmail = None"
      and "find (\<lambda>r. um_Email r = req_Email req) (users db) = Some m"
  shows "AuthService_Register env req db
           = (Inl (AlreadyExistsError ''User'' ''email'' (req_Email req)), db)"
  using assms by (simp add: AuthService_Register_def UserRepo_FindByEmail_def)

text \<open>
  When the look-up does not find the address (or is not executed; its error is dropped)
  and the insert breaks the unique index on \<open>email\<close>, \<open>Register\<close> returns the error of the
  insert, wrapped: the violation is not translated, and nothing is stored.
\<close>

lemma Register_unique_violation_wrapped:
  assumes "UserRepo_FindByEmail (driver env UserFindByEmail) (req_Email req) (users db) = Inl e"
      and "GenerateFromPassword env (req_Password req) = Inr h"
      and "NewUser (new_user_id env) (Now env) (req_Email req) (req_Phone req)
             (req_FullName req) h (req_Role req) = Inr user"
      and "driver env UserSave = None"
      and "\<not> list_ex (\<lambda>r. um_ID r = u_id user) (users db)"
      and "list_ex (\<lambda>r. um_Email r = Email_String (u_email user)) (users db)"
  shows "AuthService_Register env req db
           = (Inl (Errorf ''failed to save user'' (UniqueViolation ''idx_users_email'')), db)"
  using assms
  by (simp add: AuthService_Register_def UserRepo_Save_def fromDomainUser_def Let_def)

text \<open>
  C2 on the code: \<open>a@x.com\<close> is registered, and a second registration asks for \<open>A@X.com\<close>.
  The look-up compares the strings as they are and finds nothing; \<open>NewEmail\<close> lower-cases
  the address to \<open>a@x.com\<close>; the insert breaks the unique index, and \<open>Register\<close> returns the
  error of the insert wrapped by \<open>fmt.Errorf\<close>: not AlreadyExists.
\<close>

theorem Register_case_variant_not_AlreadyExists:
  "NewEmail ''A@X.com'' = Inr (Email ''a@x.com'')
   \<and> um_Email alice = ''a@x.com''
   \<and> AuthService_Register sample_env
       \<lparr>req_Email = ''A@X.com'', req_Phone = [], req_FullName = ''Alice'',
        req_Password = ''longpass1'', req_Role = ''owner''\<rparr> sample_db
     = (Inl (Errorf ''failed to save user'' (UniqueViolation ''idx_users_email'')), sample_db)"
proof -
  have e: "NewEmail ''A@X.com'' = Inr (Email ''a@x.com'')"
    by code_simp
  have p: "NewPhone [] = Inr (Phone [])"
    by code_simp
  show ?thesis
    by (simp add: e p NewUser_def sample_defs service_defs repository_defs)
qed

subsection \<open>C3: BanUser\<close>

text \<open>
  The model \<open>BanUser\<close> writes has \<open>IsVerified = false\<close>, the zero value of the field, so the
  statement does not assign the column \<open>is_verified\<close>: the flags in the table after a
  successful \<open>BanUser\<close> are the flags before it.
\<close>

lemma BanUser_keeps_stored_flags:
  assumes "AuthService_BanUser env userID db = (None, db')"
  shows "map um_IsVerified (users db') = map um_IsVerified (users db)"
proof -
  have "um_IsVerified (Updates now (fromDomainUser (IncrementVersion now' (Deactivate now'' u))) r)
          = um_IsVerified r" for now now' now'' u r
    by (simp add: Updates_def fromDomainUser_def IncrementVersion_def Deactivate_def)
  then have "map um_IsVerified
               (map (\<lambda>r. if hit (fromDomainUser (IncrementVersion now' (Deactivate now'' u))) r
                         then Updates now (fromDomainUser (IncrementVersion now' (Deactivate now'' u))) r
                         else r) rows)
             = map um_IsVerified rows" for now now' now'' u rows
    by (induction rows) auto
  with assms show ?thesis
    by (auto simp: AuthService_BanUser_def UserRepo_Update_def Let_def
             split: sum.splits option.splits if_splits)
qed

text \<open>The outcome of \<open>BanUser\<close> does not depend on what \<open>RevokeAllForUser\<close> reports.\<close>

lemma BanUser_ignores_revocation_failure:
  "fst (AuthService_BanUser (env\<lparr>driver := (driver env)(TokenRevokeAllForUser := f)\<rparr>) userID db)
   = fst (AuthService_BanUser env userID db)"
  by (simp add: AuthService_BanUser_def Let_def split: sum.splits option.splits prod.splits)

text \<open>
  C3 on the code: Alice is stored verified, at version 1. \<open>BanUser\<close> succeeds, the stored
  version is 2 and her token is revoked, but the stored flag is still true, and
  \<open>GetProfile\<close> shows \<open>verified = true\<close>.
\<close>

theorem BanUser_leaves_verified_true:
  "um_IsVerified alice = True \<and> um_Version alice = 1
   \<and> AuthService_BanUser sample_env 1 sample_db
     = (None, \<lparr>users = [alice\<lparr>um_Version := 2, um_UpdatedAt := 1000\<rparr>],
               refresh_tokens = [alice_token\<lparr>tm_Revoked := True\<rparr>]\<rparr>)
   \<and> map um_IsVerified (users (snd (AuthService_BanUser sample_env 1 sample_db))) = [True]
   \<and> map_sum id dto_IsVerified
       (AuthService_GetProfile sample_env2 1 (snd (AuthService_BanUser sample_env 1 sample_db)))
     = Inr True"
  by (simp add: sample_defs service_defs repository_defs entity_defs)

subsection \<open>C9: the format of the phone number\<close>

text \<open>
  Registration keeps the invariant: the phone number of a user \<open>NewUser\<close> returns has passed
  \<open>NewPhone\<close>.
\<close>

lemma NewPhone_ok: "NewPhone raw = Inr p \<Longrightarrow> phone_ok p"
  by (auto simp: NewPhone_def phone_ok_def Let_def split: if_splits)

lemma NewUser_phone_ok:
  assumes "NewUser new_id now email phone fullName passwordHash role = Inr u"
  shows "phone_ok (u_phone u)"
  using assms
  by (auto simp: NewUser_def dest: NewPhone_ok split: sum.splits if_splits)

text \<open>\<open>UpdateProfile\<close> stores a phone argument that is not empty as it is.\<close>

lemma UpdateProfile_phone_unchecked:
  "phone \<noteq> [] \<Longrightarrow> u_phone (User_UpdateProfile now fullName phone avatarURL u) = Phone phone"
  by (simp add: User_UpdateProfile_def Let_def)

text \<open>
  C9 on the code: Alice updates her profile with the phone number \<open>abc\<close>. The use case
  succeeds, and the aggregate the store returns for her afterwards has the phone number
  \<open>abc\<close>, which is neither empty nor of the format of \<open>phoneRegexp\<close>.
\<close>

theorem UpdateProfile_breaks_phone_format:
  "\<not> phone_ok (Phone ''abc'')
   \<and> fst (AuthService_UpdateProfile sample_env 1
            \<lparr>upd_FullName = [], upd_Phone = ''abc'', upd_AvatarURL = []\<rparr> sample_db)
     = Inr \<lparr>dto_ID = 1, dto_Email = ''a@x.com'', dto_Phone = ''abc'', dto_FullName = ''Alice'',
            dto_Role = ''owner'', dto_IsVerified = True, dto_AvatarURL = [],
            dto_CreatedAt = 500\<rparr>
   \<and> map_sum id u_phone
       (UserRepo_FindByID None 1
          (users (snd (AuthService_UpdateProfile sample_env 1
                         \<lparr>upd_FullName = [], upd_Phone = ''abc'', upd_AvatarURL = []\<rparr>
                         sample_db))))
     = Inr (Phone ''abc'')"
proof -
  have "\<not> MatchString phoneRegexp ''abc''"
    by code_simp
  then have "\<not> phone_ok (Phone ''abc'')"
    by (simp add: phone_ok_def)
  then show ?thesis
    by (simp add: sample_defs service_defs repository_defs entity_defs)
qed

subsection \<open>TrimSpace trims completely\<close>

text \<open>
  The rounds of the trimming loop suffice: what \<open>TrimLeft\<close> returns starts with no white
  space, and what \<open>TrimRight\<close> returns ends with none.
\<close>

lemma trim_n_done:
  "length s \<le> n \<Longrightarrow> leading_space encs (trim_n n encs s) = 0"
proof (induction n arbitrary: s)
  case 0
  then show ?case by (auto simp: leading_space_def find_Some_iff split: option.splits)
next
  case (Suc n)
  then show ?case by simp
qed

lemma TrimLeft_done: "leading_space unicode_space (TrimLeft s) = 0"
  by (simp add: TrimLeft_def trim_n_done)

lemma TrimRight_done: "leading_space (map rev unicode_space) (rev (TrimRight s)) = 0"
  by (simp add: TrimRight_def trim_n_done)

subsection \<open>What the two mutations persist\<close>

text \<open>
  A use case that mutates a user loads the row, increments the version of the aggregate
  and sends the conditional write. Within one request nothing comes between the two
  statements, so the write finds the version it expects and replaces the row of the user.
\<close>

lemma map_hit_by_id:
  assumes "distinct (map um_ID rows)" and "r \<in> set rows" and "um_ID r = um_ID model"
      and "um_Version r = um_Version model - 1"
  shows "map (\<lambda>x. if hit model x then f x else x) rows
         = map (\<lambda>x. if um_ID x = um_ID model then f x else x) rows"
proof (rule map_cong [OF refl])
  fix x assume "x \<in> set rows"
  with assms have "um_ID x = um_ID model \<Longrightarrow> x = r"
    by (metis distinct_map inj_onD)
  with assms(4) show "(if hit model x then f x else x) = (if um_ID x = um_ID model then f x else x)"
    by (auto simp: hit_def)
qed

lemma Update_after_FindByID:
  assumes "distinct (map um_ID rows)" and "find (\<lambda>x. um_ID x = userID) rows = Some r"
      and "u_id u = userID" and "u_version u = um_Version r + 1"
  shows "UserRepo_Update None now u rows
         = (None, map (\<lambda>x. if um_ID x = userID then Updates now (fromDomainUser u) x else x) rows)"
proof -
  let ?m = "fromDomainUser u"
  have r: "r \<in> set rows" "um_ID r = um_ID ?m"
    using assms(2,3) by (auto simp: find_Some_iff fromDomainUser_def)
  have v: "um_Version r = um_Version ?m - 1"
    using assms(4) by (simp add: fromDomainUser_def)
  have "filter (hit ?m) rows = [r]"
    using filter_hit_unique [OF assms(1) r] v by simp
  moreover have "um_ID ?m = userID"
    using assms(3) by (simp add: fromDomainUser_def)
  ultimately show ?thesis
    using map_hit_by_id [OF assms(1) r v]
    by (simp add: UserRepo_Update_def RowsAffected_def Let_def)
qed

text \<open>
  \<open>UpdateProfile\<close>: when both statements are executed and the user exists, the use case
  succeeds and the row of the user afterwards is the mutated aggregate, field by field
  (the assignment skips only fields that are empty in the aggregate and in the row alike).
  The stored version is not \<open>-1\<close>, so that the incremented version is not the zero value.
\<close>

lemma UpdateProfile_persisted:
  assumes "distinct (map um_ID (users db))"
      and "driver env UserFindByID = None" and "driver env UserUpdate = None"
      and "find (\<lambda>x. um_ID x = userID) (users db) = Some r"
      and "um_Version r + 1 \<noteq> 0"
  shows "AuthService_UpdateProfile env userID req db
         = (Inr (toUserDTO (IncrementVersion (Now env)
                   (User_UpdateProfile (Now env) (upd_FullName req) (upd_Phone req)
                      (upd_AvatarURL req) (toDomain r)))),
            db\<lparr>users := map (\<lambda>x. if um_ID x = userID
                                  then fromDomainUser (IncrementVersion (Now env)
                                         (User_UpdateProfile (Now env) (upd_FullName req)
                                            (upd_Phone req) (upd_AvatarURL req) (toDomain r)))
                                  else x) (users db)\<rparr>)"
proof -
  let ?u = "IncrementVersion (Now env)
              (User_UpdateProfile (Now env) (upd_FullName req) (upd_Phone req)
                 (upd_AvatarURL req) (toDomain r))"
  have r: "r \<in> set (users db)" "um_ID r = userID"
    using assms(4) by (auto simp: find_Some_iff)
  have only: "x = r" if "x \<in> set (users db)" "um_ID x = userID" for x
    using that r assms(1) by (metis distinct_map inj_onD)
  have id: "u_id ?u = userID" and ver: "u_version ?u = um_Version r + 1"
    using r by (simp_all add: entity_defs toDomain_def Let_def)
  have row: "Updates (Now env) (fromDomainUser ?u) r = fromDomainUser ?u"
    using assms(5) r
    by (simp add: Updates_def fromDomainUser_def toDomain_def entity_defs Let_def)
  have "map (\<lambda>x. if um_ID x = userID then Updates (Now env) (fromDomainUser ?u) x else x) (users db)
      = map (\<lambda>x. if um_ID x = userID then fromDomainUser ?u else x) (users db)"
    by (rule map_cong [OF refl]) (use only row in auto)
  then show ?thesis
    using assms(2,3,4) Update_after_FindByID [OF assms(1,4) id ver, of "Now env"]
    by (simp add: AuthService_UpdateProfile_def UserRepo_FindByID_def Let_def)
qed

text \<open>
  \<open>BanUser\<close>, under the same conditions: the use case succeeds whatever
  \<open>RevokeAllForUser\<close> reports, and the row of the user afterwards is the mutated aggregate
  but for the verified flag, which is the one the row had.
\<close>

lemma BanUser_persisted:
  assumes "distinct (map um_ID (users db))"
      and "driver env UserFindByID = None" and "driver env UserUpdate = None"
      and "find (\<lambda>x. um_ID x = userID) (users db) = Some r"
      and "um_Version r + 1 \<noteq> 0"
  shows "AuthService_BanUser env userID db
         = (None,
            db\<lparr>users := map (\<lambda>x. if um_ID x = userID
                                  then (fromDomainUser (IncrementVersion (Now env)
                                          (Deactivate (Now env) (toDomain r))))
                                       \<lparr>um_IsVerified := um_IsVerified r\<rparr>
                                  else x) (users db),
               refresh_tokens :=
                 snd (TokenRepo_RevokeAllForUser (driver env TokenRevokeAllForUser) userID
                        (refresh_tokens db))\<rparr>)"
proof -
  let ?u = "IncrementVersion (Now env) (Deactivate (Now env) (toDomain r))"
  have r: "r \<in> set (users db)" "um_ID r = userID"
    using assms(4) by (auto simp: find_Some_iff)
  have only: "x = r" if "x \<in> set (users db)" "um_ID x = userID" for x
    using that r assms(1) by (metis distinct_map inj_onD)
  have id: "u_id ?u = userID" and ver: "u_version ?u = um_Version r + 1"
    using r by (simp_all add: entity_defs toDomain_def)
  have row: "Updates (Now env) (fromDomainUser ?u) r
               = (fromDomainUser ?u)\<lparr>um_IsVerified := um_IsVerified r\<rparr>"
    using assms(5) r
    by (simp add: Updates_def fromDomainUser_def toDomain_def entity_defs)
  have "map (\<lambda>x. if um_ID x = userID then Updates (Now env) (fromDomainUser ?u) x else x) (users db)
      = map (\<lambda>x. if um_ID x = userID then (fromDomainUser ?u)\<lparr>um_IsVerified := um_IsVerified r\<rparr>
                  else x) (users db)"
    by (rule map_cong [OF refl]) (use only row in auto)
  then show ?thesis
    using assms(2,3,4) Update_after_FindByID [OF assms(1,4) id ver, of "Now env"]
    by (simp add: AuthService_BanUser_def UserRepo_FindByID_def Let_def)
qed

lemma find_in_prefix: "find P xs = Some x \<Longrightarrow> find P (xs @ ys) = Some x"
  by (induction xs) (auto split: if_splits)

text \<open>
  After a successful \<open>RefreshToken\<close> the store answers for the presented token what it
  answered before: the same record, not revoked.
\<close>

lemma RefreshToken_row_unchanged:
  assumes "AuthService_RefreshToken env token db = (Inr resp, db')"
  shows "\<exists>t. TokenRepo_FindByToken None token (refresh_tokens db) = Inr t
           \<and> TokenRepo_FindByToken None token (refresh_tokens db') = Inr t
           \<and> \<not> t_revoked t"
proof -
  from assms obtain t where
    t: "TokenRepo_FindByToken (driver env TokenFindByToken) token (refresh_tokens db) = Inr t"
       "IsValid (Now env) t"
    by (auto simp: AuthService_RefreshToken_def split: sum.splits if_splits)
  then have f: "TokenRepo_FindByToken None token (refresh_tokens db) = Inr t"
    by (auto simp: TokenRepo_FindByToken_def split: option.splits)
  from RefreshToken_appends_only [OF assms] obtain row where
    "refresh_tokens db' = refresh_tokens db @ [row]"
    by blast
  with f have "TokenRepo_FindByToken None token (refresh_tokens db') = Inr t"
    by (auto simp: TokenRepo_FindByToken_def find_in_prefix split: option.splits)
  with f t(2) show ?thesis
    by (auto simp: IsValid_def)
qed

end
